theory Spec2Isabelle
  imports Complex_Main "HOL-Library.Multiset"
begin

section \<open>Values and exceptions\<close>

text \<open>
  The program is one Python module, \<^verbatim>\<open>app.py\<close>. Its values are modelled as follows.

  \<^item> A Python number is an \<open>int\<close> or a finite \<open>float\<close>. Python compares the two kinds by
    their exact values, so a number is read through \<open>num_val\<close> as a rational. The
    floating-point literal \<^verbatim>\<open>4.2\<close> denotes the double nearest to 4.2; that double lies
    above 4.2 and no double lies between the two, so for every \<open>int\<close> and every finite
    \<open>float\<close> \<open>r\<close> the test \<^verbatim>\<open>r < 4.2\<close> of the program agrees with \<open>r < 42 / 10\<close> on the
    exact values. The special values \<open>nan\<close> and \<open>inf\<close> are outside the model: a rating is a
    number between 0 and 5.
  \<^item> An exception is a value of type \<open>exn\<close>, carrying the text \<^verbatim>\<open>str(exc)\<close>; a call that
    may raise returns \<open>exn + 'a\<close>, with \<open>Inl\<close> for the raised exception. The class
    \<^verbatim>\<open>requests.HTTPError\<close> is kept apart, because the handler of the page tells it from
    every other \<^verbatim>\<open>Exception\<close>.
\<close>

datatype number = PyInt int | PyFloat rat

fun num_val :: "number \<Rightarrow> rat" where
  "num_val (PyInt i) = of_int i"
| "num_val (PyFloat q) = q"

datatype exn =
    HTTPError string
  | IndexError string
  | ValueError string
  | OtherException string

fun exn_str :: "exn \<Rightarrow> string" where
  "exn_str (HTTPError m) = m"
| "exn_str (IndexError m) = m"
| "exn_str (ValueError m) = m"
| "exn_str (OtherException m) = m"

text \<open>\<^verbatim>\<open>d.get(key, default)\<close> on an optional field.\<close>

fun get_default :: "'a \<Rightarrow> 'a option \<Rightarrow> 'a" where
  "get_default d None = d"
| "get_default d (Some v) = v"

text \<open>The truth value of \<^verbatim>\<open>d.get(key)\<close> for a string field: \<^verbatim>\<open>None\<close> and \<^verbatim>\<open>""\<close> are false.\<close>

fun truthy :: "string option \<Rightarrow> bool" where
  "truthy None = False"
| "truthy (Some s) = (s \<noteq> [])"

text \<open>\<^verbatim>\<open>x in s\<close> for the value of \<^verbatim>\<open>d.get(key)\<close> and a set of strings.\<close>

fun py_in :: "string option \<Rightarrow> string set \<Rightarrow> bool" where
  "py_in None s = False"
| "py_in (Some x) s = (x \<in> s)"

section \<open>Places\<close>

text \<open>
  A place is the dictionary the places search returns for one business. The field mask of
  \<^verbatim>\<open>search_places\<close> asks for seven attributes, and each of them may be absent from a
  result, so a place is a record of optional fields, typed as the search API types them:
  \<open>pid\<close> is the key \<^verbatim>\<open>"id"\<close>, \<open>displayName\<close> is a nested dictionary with the key
  \<^verbatim>\<open>"text"\<close>.
\<close>

record localized_text =
  dn_text :: "string option"

record place =
  pid :: "string option"
  displayName :: "localized_text option"
  rating :: "number option"
  userRatingCount :: "int option"
  priceLevel :: "string option"
  formattedAddress :: "string option"
  googleMapsUri :: "string option"

definition MIN_RATING :: rat where
  "MIN_RATING = 42 / 10"

definition MIN_REVIEWS :: int where
  "MIN_REVIEWS = 200"

section \<open>The eligibility filter and the pick\<close>

text \<open>
  The loop of \<^verbatim>\<open>choose_place\<close>, with the list \<^verbatim>\<open>eligible\<close> as accumulator. The two
  \<^verbatim>\<open>continue\<close> statements are the two branches that leave the accumulator unchanged.
\<close>

fun eligible_loop :: "place list \<Rightarrow> string set \<Rightarrow> place list \<Rightarrow> place list" where
  "eligible_loop [] history_ids eligible = eligible"
| "eligible_loop (p # places) history_ids eligible =
     (let place_id = pid p;
          rating_v = get_default (PyInt 0) (rating p);
          reviews = get_default 0 (userRatingCount p)
      in if \<not> truthy place_id \<or> py_in place_id history_ids
           then eligible_loop places history_ids eligible
         else if num_val rating_v < MIN_RATING \<or> reviews < MIN_REVIEWS
           then eligible_loop places history_ids eligible
         else eligible_loop places history_ids (eligible @ [p]))"

text \<open>
  \<^verbatim>\<open>random.choice(seq)\<close> is \<^verbatim>\<open>seq[self._randbelow(len(seq))]\<close> and raises
  \<^verbatim>\<open>IndexError\<close> on an empty sequence. The generator is a parameter: \<open>randbelow n\<close> is
  the number it hands out when asked for one below \<open>n\<close>.
\<close>

definition random_choice :: "(nat \<Rightarrow> nat) \<Rightarrow> 'a list \<Rightarrow> exn + 'a" where
  "random_choice randbelow seq =
     (if seq = [] then Inl (IndexError ''Cannot choose from an empty sequence'')
      else let i = randbelow (length seq)
           in if i < length seq then Inr (seq ! i)
              else Inl (IndexError ''list index out of range''))"

definition choose_place :: "(nat \<Rightarrow> nat) \<Rightarrow> place list \<Rightarrow> string set \<Rightarrow> exn + place option" where
  "choose_place randbelow places history_ids =
     (let eligible = eligible_loop places history_ids []
      in if eligible = [] then Inr None
         else case random_choice randbelow eligible of
                Inl e \<Rightarrow> Inl e
              | Inr p \<Rightarrow> Inr (Some p))"

text \<open>
  The survivors as the specification words them: a place that has an identifier, whose
  identifier is not excluded, whose rating is at least 4.2 and whose review count is at
  least 200. A place without a rating has no rating of at least 4.2, and likewise for the
  review count; an empty string is no identifier.
\<close>

definition has_identifier :: "place \<Rightarrow> bool" where
  "has_identifier p = (case pid p of None \<Rightarrow> False | Some i \<Rightarrow> i \<noteq> [])"

definition identifier_excluded :: "string set \<Rightarrow> place \<Rightarrow> bool" where
  "identifier_excluded excluded p = (case pid p of None \<Rightarrow> False | Some i \<Rightarrow> i \<in> excluded)"

definition rating_at_least :: "rat \<Rightarrow> place \<Rightarrow> bool" where
  "rating_at_least t p = (case rating p of None \<Rightarrow> False | Some r \<Rightarrow> t \<le> num_val r)"

definition review_count_at_least :: "int \<Rightarrow> place \<Rightarrow> bool" where
  "review_count_at_least t p = (case userRatingCount p of None \<Rightarrow> False | Some n \<Rightarrow> t \<le> n)"

definition spec_survivor :: "string set \<Rightarrow> place \<Rightarrow> bool" where
  "spec_survivor excluded p =
     (has_identifier p \<and> \<not> identifier_excluded excluded p \<and>
      rating_at_least (42 / 10) p \<and> review_count_at_least 200 p)"

section \<open>The next Monday\<close>

text \<open>
  A \<^verbatim>\<open>datetime.date\<close> is modelled by its proleptic Gregorian ordinal (day 1 is
  0001-01-01, a Monday), on which \<^verbatim>\<open>date.weekday()\<close> is \<^verbatim>\<open>(ordinal + 6) % 7\<close> with
  Monday as 0, and adding \<^verbatim>\<open>timedelta(days=n)\<close> adds \<open>n\<close>. The ordinal is an unbounded
  integer: the upper end of Python's date range (the year 9999) is not modelled. Python's
  \<^verbatim>\<open>%\<close> with a positive modulus is \<open>mod\<close> on \<open>int\<close>.
\<close>

type_synonym date = int

definition weekday :: "date \<Rightarrow> int" where
  "weekday d = (d + 6) mod 7"

text \<open>\<^verbatim>\<open>get_next_monday_date\<close>, with the clock's reading \<^verbatim>\<open>today\<close> as argument.\<close>

definition get_next_monday_date :: "date \<Rightarrow> date" where
  "get_next_monday_date today =
     (let days_ahead = (0 - weekday today) mod 7;
          days_ahead = (if days_ahead = 0 then 7 else days_ahead)
      in today + days_ahead)"

section \<open>Formatting\<close>

text \<open>\<^verbatim>\<open>str(n)\<close> for an integer: its decimal digits, with a minus sign when negative.\<close>

function str_nat :: "nat \<Rightarrow> string" where
  "str_nat n =
     (if n < 10 then [char_of (48 + n)]
      else str_nat (n div 10) @ [char_of (48 + n mod 10)])"
  by pat_completeness auto
termination
  by (relation "measure id") auto

declare str_nat.simps [simp del]

definition str_int :: "int \<Rightarrow> string" where
  "str_int i = (if i < 0 then CHR ''-'' # str_nat (nat (- i)) else str_nat (nat i))"

text \<open>
  A \<^verbatim>\<open>datetime\<close> is a date, a wall-clock time and the key of its time zone.
  \<^verbatim>\<open>datetime.combine(d, time(h, m), tzinfo=tz)\<close> is the record with that date, hour and
  minute, and zero seconds and microseconds.
\<close>

record datetime =
  dt_date :: date
  dt_hour :: nat
  dt_minute :: nat
  dt_second :: nat
  dt_microsecond :: nat
  dt_tzinfo :: string

definition TIMEZONE :: string where
  "TIMEZONE = ''America/Los_Angeles''"

definition combine :: "date \<Rightarrow> nat \<times> nat \<Rightarrow> string \<Rightarrow> datetime" where
  "combine d t tz =
     \<lparr>dt_date = d, dt_hour = fst t, dt_minute = snd t, dt_second = 0,
      dt_microsecond = 0, dt_tzinfo = tz\<rparr>"

text \<open>
  The functions of Python's library that print a float, a date and a datetime are not
  part of the program; they are parameters of the model, collected in one record.
\<close>

record library =
  float_str :: "rat \<Rightarrow> string"
  date_isoformat :: "date \<Rightarrow> string"
  datetime_isoformat :: "datetime \<Rightarrow> string"

fun str_number :: "library \<Rightarrow> number \<Rightarrow> string" where
  "str_number lib (PyInt i) = str_int i"
| "str_number lib (PyFloat q) = float_str lib q"

section \<open>The place's name, the calendar event and the history row\<close>

definition get_place_name :: "place \<Rightarrow> string" where
  "get_place_name p =
     get_default ''Unknown Restaurant''
       (dn_text (get_default \<lparr>dn_text = None\<rparr> (displayName p)))"

record event_time =
  dateTime :: string
  timeZone :: string

record event =
  summary :: string
  location :: string
  description :: string
  ev_start :: event_time
  ev_end :: event_time

text \<open>
  The body that \<^verbatim>\<open>create_calendar_event\<close> hands to the calendar's \<^verbatim>\<open>insert\<close>. The
  fields \<open>ev_start\<close> and \<open>ev_end\<close> are the keys \<^verbatim>\<open>"start"\<close> and \<^verbatim>\<open>"end"\<close>.
\<close>

definition calendar_event :: "library \<Rightarrow> place \<Rightarrow> date \<Rightarrow> event" where
  "calendar_event lib p event_date =
     (let start_dt = combine event_date (18, 0) TIMEZONE;
          end_dt = combine event_date (20, 0) TIMEZONE
      in \<lparr>summary = ''Dinner @ '' @ get_place_name p,
          location = get_default [] (formattedAddress p),
          description =
            get_place_name p @ '' | Rating: '' @
            get_default ''N/A'' (map_option (str_number lib) (rating p)) @
            '' | Reviews: '' @
            get_default ''N/A'' (map_option str_int (userRatingCount p)) @
            '' | Link: '' @ get_default [] (googleMapsUri p),
          ev_start = \<lparr>dateTime = datetime_isoformat lib start_dt, timeZone = TIMEZONE\<rparr>,
          ev_end = \<lparr>dateTime = datetime_isoformat lib end_dt, timeZone = TIMEZONE\<rparr>\<rparr>)"

text \<open>
  \<^verbatim>\<open>create_calendar_event\<close>: the body is built and inserted once; \<open>events_insert\<close> is
  the calendar's answer, an exception or nothing.
\<close>

definition create_calendar_event ::
  "library \<Rightarrow> (event \<Rightarrow> exn + unit) \<Rightarrow> place \<Rightarrow> date \<Rightarrow> exn + unit" where
  "create_calendar_event lib events_insert p event_date =
     events_insert (calendar_event lib p event_date)"

text \<open>
  \<^verbatim>\<open>format_history_row\<close>, with the clock's reading \<^verbatim>\<open>datetime.now(TIMEZONE)\<close> as the
  argument \<open>now\<close>. The empty string is written \<open>[]\<close>.
\<close>

definition format_history_row :: "library \<Rightarrow> datetime \<Rightarrow> place \<Rightarrow> string \<Rightarrow> date \<Rightarrow> string list" where
  "format_history_row lib now p cuisine event_date =
     (let timestamp = datetime_isoformat lib now
      in [timestamp,
          date_isoformat lib event_date,
          cuisine,
          get_place_name p,
          get_default [] (pid p),
          get_default [] (map_option (str_number lib) (rating p)),
          get_default [] (map_option str_int (userRatingCount p)),
          get_default [] (priceLevel p),
          get_default [] (formattedAddress p),
          get_default [] (googleMapsUri p)])"

section \<open>The history log\<close>

text \<open>
  The log is read as a list of rows, each a list of cell texts; the reading service leaves
  out the empty cells at the end of a row, so rows differ in length. The program loads
  the rows into a \<^verbatim>\<open>pandas.DataFrame\<close>; the part of pandas it relies on is modelled here.

  \<^verbatim>\<open>DataFrame(data, columns=cols)\<close> on a list of lists: with no data row the frame is
  empty and has the columns \<open>cols\<close>; otherwise every row is filled with \<^verbatim>\<open>None\<close> up to
  the longest row, and a \<^verbatim>\<open>ValueError\<close> is raised unless that length is the number of
  columns.
\<close>

record frame =
  columns :: "string list"
  cells :: "string option list list"

definition pad :: "nat \<Rightarrow> string list \<Rightarrow> string option list" where
  "pad width row = map Some row @ replicate (width - length row) None"

definition DataFrame :: "string list list \<Rightarrow> string list \<Rightarrow> exn + frame" where
  "DataFrame data cols =
     (if data = [] then Inr \<lparr>columns = cols, cells = []\<rparr>
      else let width = foldr (\<lambda>row w. max (length row) w) data 0
           in if length cols \<noteq> width
                then Inl (ValueError (str_nat (length cols) @ '' columns passed, passed data had '' @
                                      str_nat width @ '' columns''))
              else Inr \<lparr>columns = cols, cells = map (pad width) data\<rparr>)"

text \<open>
  \<^verbatim>\<open>df[key]\<close>: a \<^verbatim>\<open>Series\<close> when the label \<open>key\<close> names one column, a \<^verbatim>\<open>DataFrame\<close>
  of all the columns with that label when it names several, and a \<^verbatim>\<open>KeyError\<close> when it
  names none.
\<close>

datatype selection = Series "string option list" | Frame frame

definition positions :: "string \<Rightarrow> string list \<Rightarrow> nat list" where
  "positions key cols = filter (\<lambda>i. cols ! i = key) [0..<length cols]"

definition getitem :: "frame \<Rightarrow> string \<Rightarrow> exn + selection" where
  "getitem df key =
     (case positions key (columns df) of
        [] \<Rightarrow> Inl (OtherException (CHR 0x27 # key @ [CHR 0x27]))
      | [i] \<Rightarrow> Inr (Series (map (\<lambda>r. r ! i) (cells df)))
      | js \<Rightarrow> Inr (Frame \<lparr>columns = map (\<lambda>j. columns df ! j) js,
                            cells = map (\<lambda>r. map (\<lambda>j. r ! j) js) (cells df)\<rparr>))"

text \<open>
  \<^verbatim>\<open>dropna()\<close> removes the missing values of a series, and the rows of a frame that have
  one. \<^verbatim>\<open>astype(str)\<close> turns every value into a string (\<^verbatim>\<open>None\<close> into \<^verbatim>\<open>'None'\<close>).
  \<^verbatim>\<open>set(x)\<close> iterates \<open>x\<close>: a series yields its values, a frame yields its column labels.
\<close>

fun dropna :: "selection \<Rightarrow> selection" where
  "dropna (Series xs) = Series (filter (\<lambda>x. x \<noteq> None) xs)"
| "dropna (Frame f) = Frame (f\<lparr>cells := filter (\<lambda>r. None \<notin> set r) (cells f)\<rparr>)"

fun astype_str :: "selection \<Rightarrow> selection" where
  "astype_str (Series xs) = Series (map (\<lambda>x. Some (get_default ''None'' x)) xs)"
| "astype_str (Frame f) =
     Frame (f\<lparr>cells := map (map (\<lambda>x. Some (get_default ''None'' x))) (cells f)\<rparr>)"

fun py_set :: "selection \<Rightarrow> string set" where
  "py_set (Series xs) = set (map (get_default ''None'') xs)"
| "py_set (Frame f) = set (columns f)"

text \<open>
  \<^verbatim>\<open>fetch_history_place_ids\<close>. The argument is the outcome of the read request: an
  exception, or the response, whose key \<^verbatim>\<open>"values"\<close> may be absent.
\<close>

definition fetch_history_place_ids :: "exn + string list list option \<Rightarrow> exn + string set" where
  "fetch_history_place_ids executed =
     (case executed of
        Inl e \<Rightarrow> Inl e
      | Inr response \<Rightarrow>
          (case get_default [] response of
             [] \<Rightarrow> Inr {}
           | header # body \<Rightarrow>
               (case DataFrame body header of
                  Inl e \<Rightarrow> Inl e
                | Inr df \<Rightarrow>
                    if ''Google Place ID'' \<notin> set (columns df) then Inr {}
                    else (case getitem df ''Google Place ID'' of
                            Inl e \<Rightarrow> Inl e
                          | Inr col \<Rightarrow> Inr (py_set (astype_str (dropna col)))))))"

text \<open>
  The values of the column at position \<open>i\<close> that the data rows really hold: a row shorter
  than \<open>i + 1\<close> cells has no value there.
\<close>

definition column_values :: "nat \<Rightarrow> string list list \<Rightarrow> string set" where
  "column_values i body = set (map (\<lambda>row. row ! i) (filter (\<lambda>row. i < length row) body))"

text \<open>The frame can be built: there is no data row, or the longest one is as long as the header.\<close>

definition frame_fits :: "string list \<Rightarrow> string list list \<Rightarrow> bool" where
  "frame_fits header body =
     (body = [] \<or> foldr (\<lambda>row w. max (length row) w) body 0 = length header)"

section \<open>The places search\<close>

record search_payload =
  textQuery :: string
  minRating :: rat
  openNow :: bool

definition search_request :: "string \<Rightarrow> search_payload" where
  "search_request cuisine =
     \<lparr>textQuery = cuisine @ '' food near 92117'', minRating = MIN_RATING, openNow = True\<rparr>"

text \<open>
  \<^verbatim>\<open>search_places\<close>. \<open>post\<close> is the outcome of the request, of \<^verbatim>\<open>raise_for_status\<close>
  and of decoding the body: an exception (a \<^verbatim>\<open>requests.HTTPError\<close> for an error status),
  or the body, whose key \<^verbatim>\<open>"places"\<close> may be absent.
\<close>

definition search_places :: "(search_payload \<Rightarrow> exn + place list option) \<Rightarrow> string \<Rightarrow> exn + place list" where
  "search_places post cuisine =
     (case post (search_request cuisine) of
        Inl e \<Rightarrow> Inl e
      | Inr body \<Rightarrow> Inr (get_default [] body))"

section \<open>The page: one press of the button\<close>

definition CUISINES :: "string list" where
  "CUISINES =
     [''Mexican'', ''Seafood'', ''Japanese'', ''Korean'', ''Chinese'', ''Vietnamese'',
      ''Thai'', ''Filipino'', ''Italian'', ''Greek'', ''Turkish'', ''Iranian'', ''Lebanese'',
      ''Indian'', ''Ethiopian'', ''Peruvian'', ''Hawaiian'', ''Barbeque'', ''Spanish'',
      ''Brazilian'']"

text \<open>
  Everything one run takes from outside the program: the two draws of the random
  generator, the two readings of the clock, and the outcome of each call to an external
  service (the construction of the two clients, the read of the log, the search, the
  append to the log, the insertion of the event). A lookup in the page's secrets is part
  of the call that needs it.
\<close>

record world =
  rand_cuisine :: "nat \<Rightarrow> nat"
  rand_place :: "nat \<Rightarrow> nat"
  clock_today :: date
  clock_now :: datetime
  google_clients :: "exn + unit"
  sheets_get :: "exn + string list list option"
  places_post :: "search_payload \<Rightarrow> exn + place list option"
  sheets_append :: "string list \<Rightarrow> exn + unit"
  events_insert :: "event \<Rightarrow> exn + unit"

text \<open>What a run does that can be observed: the requests it sends and what it shows.\<close>

datatype request =
    SheetsGet
  | PlacesSearchText search_payload
  | SheetsAppend "string list"
  | EventsInsert event

datatype ui =
    Warning string
  | Error string
  | Success string
  | Subheader string
  | Write string
  | Markdown string

fun request_kind :: "request \<Rightarrow> nat" where
  "request_kind SheetsGet = 0"
| "request_kind (PlacesSearchText q) = 1"
| "request_kind (SheetsAppend r) = 2"
| "request_kind (EventsInsert e) = 3"

fun is_error :: "ui \<Rightarrow> bool" where
  "is_error (Error m) = True"
| "is_error other = False"

text \<open>The star of the rating line, U+2B50, in UTF-8.\<close>

definition star :: string where
  "star = [CHR 0xE2, CHR 0xAD, CHR 0x90]"

text \<open>
  The lines after the two writes, lines 207 to 216 of the page: what is shown for the
  chosen place.
\<close>

definition show_choice :: "library \<Rightarrow> string \<Rightarrow> place \<Rightarrow> ui list" where
  "show_choice lib cuisine_choice chosen_place =
     [Subheader (get_place_name chosen_place),
      Write (cuisine_choice @ '' | '' @
             get_default ''N/A'' (map_option (str_number lib) (rating chosen_place)) @
             '' '' @ star)] @
     (let maps_uri = googleMapsUri chosen_place
      in if truthy maps_uri
           then [Markdown (''[View on Google Maps]('' @ get_default [] maps_uri @ '')'')]
         else []) @
     [Success ''History Updated'', Success ''Calendar Invite Sent'']"

text \<open>
  The body of the \<^verbatim>\<open>try\<close> statement. The result is the requests sent, what was shown,
  and the exception the body raised, if any. \<^verbatim>\<open>st.stop()\<close> ends the run by raising an
  exception of Streamlit's that is no \<^verbatim>\<open>Exception\<close> (it derives from
  \<^verbatim>\<open>BaseException\<close>), so neither handler catches it: the run ends after the warning.
  A chosen place has an identifier, so as a dictionary it is not empty and
  \<^verbatim>\<open>not chosen_place\<close> is false for it.
\<close>

definition try_body :: "library \<Rightarrow> world \<Rightarrow> request list \<times> ui list \<times> exn option" where
  "try_body lib w =
     (case random_choice (rand_cuisine w) CUISINES of
        Inl e \<Rightarrow> ([], [], Some e)
      | Inr cuisine_choice \<Rightarrow>
     (let monday_date = get_next_monday_date (clock_today w) in
      case google_clients w of
        Inl e \<Rightarrow> ([], [], Some e)
      | Inr u \<Rightarrow>
     (case fetch_history_place_ids (sheets_get w) of
        Inl e \<Rightarrow> ([SheetsGet], [], Some e)
      | Inr history_ids \<Rightarrow>
     (let sent = [SheetsGet, PlacesSearchText (search_request cuisine_choice)] in
      case search_places (places_post w) cuisine_choice of
        Inl e \<Rightarrow> (sent, [], Some e)
      | Inr places \<Rightarrow>
     (case choose_place (rand_place w) places history_ids of
        Inl e \<Rightarrow> (sent, [], Some e)
      | Inr None \<Rightarrow>
          (sent,
           [Warning ''No eligible restaurants found for that cuisine. Try rolling again.''],
           None)
      | Inr (Some chosen_place) \<Rightarrow>
     (let history_row =
            format_history_row lib (clock_now w) chosen_place cuisine_choice monday_date;
          sent = sent @ [SheetsAppend history_row] in
      case sheets_append w history_row of
        Inl e \<Rightarrow> (sent, [], Some e)
      | Inr u \<Rightarrow>
     (let sent = sent @ [EventsInsert (calendar_event lib chosen_place monday_date)] in
      case create_calendar_event lib (events_insert w) chosen_place monday_date of
        Inl e \<Rightarrow> (sent, [], Some e)
      | Inr u \<Rightarrow> (sent, show_choice lib cuisine_choice chosen_place, None))))))))"

text \<open>The two \<^verbatim>\<open>except\<close> clauses, in their order.\<close>

fun handler :: "exn \<Rightarrow> ui" where
  "handler (HTTPError m) = Error (''Places API error: '' @ m)"
| "handler exc = Error (''Something went wrong: '' @ exn_str exc)"

record run =
  requests :: "request list"
  shown :: "ui list"

definition roll_the_dice :: "library \<Rightarrow> world \<Rightarrow> run" where
  "roll_the_dice lib w =
     (case try_body lib w of
        (sent, out, None) \<Rightarrow> \<lparr>requests = sent, shown = out\<rparr>
      | (sent, out, Some exc) \<Rightarrow> \<lparr>requests = sent, shown = out @ [handler exc]\<rparr>)"

text \<open>The exception that the body of the \<^verbatim>\<open>try\<close> statement raised, if any.\<close>

definition raised :: "library \<Rightarrow> world \<Rightarrow> exn option" where
  "raised lib w = snd (snd (try_body lib w))"

section \<open>Example data\<close>

text \<open>
  Concrete inputs on which the theorems below are instantiated. The library of the
  examples prints the one float, the one date and the three datetimes that occur in them.
  The ordinal 738887 is Tuesday 2024-01-02, and 738893 is Monday 2024-01-08.
\<close>

definition example_library :: library where
  "example_library =
     \<lparr>float_str = (\<lambda>q. if q = 45 / 10 then ''4.5'' else ''4.0''),
      date_isoformat = (\<lambda>d. if d = 738893 then ''2024-01-08'' else ''2024-01-15''),
      datetime_isoformat =
        (\<lambda>t. if dt_hour t = 18 then ''2024-01-08T18:00:00-08:00''
             else if dt_hour t = 20 then ''2024-01-08T20:00:00-08:00''
             else ''2024-01-02T09:30:00.000000-08:00'')\<rparr>"

definition example_now :: datetime where
  "example_now =
     \<lparr>dt_date = 738887, dt_hour = 9, dt_minute = 30, dt_second = 0, dt_microsecond = 0,
      dt_tzinfo = TIMEZONE\<rparr>"

definition taco_stand :: place where
  "taco_stand =
     \<lparr>pid = Some ''ChIJ-taco'',
      displayName = Some \<lparr>dn_text = Some ''Taco Stand''\<rparr>,
      rating = Some (PyFloat (45 / 10)),
      userRatingCount = Some 1200,
      priceLevel = Some ''PRICE_LEVEL_MODERATE'',
      formattedAddress = Some ''1 Main St, San Diego, CA 92117'',
      googleMapsUri = Some ''https://maps.google.com/?cid=1''\<rparr>"

text \<open>
  Variants of the place that each miss one condition: a rating of 4.1, 199 reviews, no
  rating, no review count, no identifier, an empty identifier, and one already visited.
\<close>

definition low_rated :: place where
  "low_rated = taco_stand\<lparr>pid := Some ''ChIJ-low'', rating := Some (PyFloat (41 / 10))\<rparr>"

definition few_reviews :: place where
  "few_reviews = taco_stand\<lparr>pid := Some ''ChIJ-few'', userRatingCount := Some 199\<rparr>"

definition unrated :: place where
  "unrated = taco_stand\<lparr>pid := Some ''ChIJ-unrated'', rating := None\<rparr>"

definition uncounted :: place where
  "uncounted = taco_stand\<lparr>pid := Some ''ChIJ-uncounted'', userRatingCount := None\<rparr>"

definition nameless :: place where
  "nameless = taco_stand\<lparr>pid := None\<rparr>"

definition empty_id :: place where
  "empty_id = taco_stand\<lparr>pid := Some []\<rparr>"

definition visited :: place where
  "visited = taco_stand\<lparr>pid := Some ''ChIJ-visited''\<rparr>"

definition sushi_bar :: place where
  "sushi_bar =
     \<lparr>pid = Some ''ChIJ-sushi'',
      displayName = Some \<lparr>dn_text = Some ''Sushi Bar''\<rparr>,
      rating = Some (PyInt 5),
      userRatingCount = Some 200,
      priceLevel = None,
      formattedAddress = Some ''2 Main St, San Diego, CA 92117'',
      googleMapsUri = None\<rparr>"

definition example_places :: "place list" where
  "example_places =
     [low_rated, taco_stand, few_reviews, unrated, uncounted, nameless, empty_id, visited,
      sushi_bar]"

definition example_history :: "string set" where
  "example_history = {''ChIJ-visited''}"

text \<open>
  A log with the ten columns of a history entry and one data row, and the same log after
  a second row was appended whose last field, the map link, is empty: reading the log
  returns that row without its last cell.
\<close>

definition log_header :: "string list" where
  "log_header =
     [''Timestamp'', ''Event Date'', ''Cuisine'', ''Restaurant'', ''Google Place ID'',
      ''Rating'', ''Reviews'', ''Price'', ''Address'', ''Maps Link'']"

definition visited_row :: "string list" where
  "visited_row =
     [''2023-12-26T09:30:00.000000-08:00'', ''2024-01-01'', ''Thai'', ''Thai Corner'',
      ''ChIJ-visited'', ''4.6'', ''812'', ''PRICE_LEVEL_MODERATE'', ''3 Main St'',
      ''https://maps.google.com/?cid=3'']"

definition short_row :: "string list" where
  "short_row =
     [''2024-01-02T09:30:00.000000-08:00'', ''2024-01-08'', ''Japanese'', ''Sushi Bar'',
      ''ChIJ-sushi'', ''5'', ''200'', [], ''2 Main St, San Diego, CA 92117'']"

definition example_log :: "string list list" where
  "example_log = [log_header, visited_row]"

definition short_log :: "string list list" where
  "short_log = [log_header, short_row]"

text \<open>
  A run in which every service answers: the generator draws the cuisine at index 2 and
  the survivor at index 0, and the search returns the example places.
\<close>

definition example_world :: world where
  "example_world =
     \<lparr>rand_cuisine = (\<lambda>n. 2),
      rand_place = (\<lambda>n. 0),
      clock_today = 738887,
      clock_now = example_now,
      google_clients = Inr (),
      sheets_get = Inr (Some example_log),
      places_post = (\<lambda>q. Inr (Some example_places)),
      sheets_append = (\<lambda>r. Inr ()),
      events_insert = (\<lambda>e. Inr ())\<rparr>"

text \<open>
  Three more runs: the search returns no survivor; the search answers with the status
  403; the log holds only the short row.
\<close>

definition barren_world :: world where
  "barren_world =
     example_world\<lparr>places_post := (\<lambda>q. Inr (Some [low_rated, few_reviews, visited]))\<rparr>"

definition forbidden_message :: string where
  "forbidden_message =
     ''403 Client Error: Forbidden for url: https://places.googleapis.com/v1/places:searchText''"

definition forbidden_world :: world where
  "forbidden_world = example_world\<lparr>places_post := (\<lambda>q. Inl (HTTPError forbidden_message))\<rparr>"

definition short_log_world :: world where
  "short_log_world = example_world\<lparr>sheets_get := Inr (Some short_log)\<rparr>"

section \<open>Properties of the eligibility filter\<close>

lemma eligible_loop_filter:
  "eligible_loop places h acc = acc @ filter (spec_survivor h) places"
proof (induction places arbitrary: acc)
  case Nil
  show ?case by simp
next
  case (Cons p ps)
  show ?case
  proof (cases "pid p")
    case None
    then show ?thesis
      by (simp add: Cons.IH spec_survivor_def has_identifier_def)
  next
    case (Some i)
    then show ?thesis
      by (cases "rating p"; cases "userRatingCount p")
        (auto simp: Cons.IH spec_survivor_def has_identifier_def identifier_excluded_def
          rating_at_least_def review_count_at_least_def MIN_RATING_def MIN_REVIEWS_def)
  qed
qed

lemma choose_place_empty:
  "eligible_loop places h [] = [] \<Longrightarrow> choose_place rb places h = Inr None"
  by (simp add: choose_place_def)

lemma choose_place_drawn:
  assumes "eligible_loop places h [] \<noteq> []"
    and "rb (length (eligible_loop places h [])) < length (eligible_loop places h [])"
  shows "choose_place rb places h =
           Inr (Some (eligible_loop places h [] ! rb (length (eligible_loop places h []))))"
  using assms by (simp add: choose_place_def random_choice_def Let_def)

lemma choose_place_member:
  assumes "choose_place rb places h = Inr (Some p)"
  shows "p \<in> set (eligible_loop places h [])"
  using assms
  by (auto simp: choose_place_def random_choice_def Let_def split: if_splits)

text \<open>
  C1. For every list of places and every exclusion set, the list \<^verbatim>\<open>eligible\<close> that
  \<^verbatim>\<open>choose_place\<close> builds is exactly the sublist of the places that have an identifier,
  whose identifier is not excluded, whose rating is at least 4.2 and whose review count is
  at least 200, in the order of the input; a place that misses one of the four conditions
  is not in it. Accordingly \<^verbatim>\<open>choose_place\<close> returns \<^verbatim>\<open>None\<close> exactly when no place
  meets the four conditions, and a place it returns is one of the input that meets them.
\<close>

theorem choose_place_eligible_exact:
  "eligible_loop places history_ids [] = filter (spec_survivor history_ids) places \<and>
   (choose_place randbelow places history_ids = Inr None \<longleftrightarrow>
      filter (spec_survivor history_ids) places = []) \<and>
   (\<forall>p. choose_place randbelow places history_ids = Inr (Some p) \<longrightarrow>
      p \<in> set places \<and> spec_survivor history_ids p)"
proof (intro conjI allI impI)
  show "eligible_loop places history_ids [] = filter (spec_survivor history_ids) places"
    by (simp add: eligible_loop_filter)
next
  show "choose_place randbelow places history_ids = Inr None \<longleftrightarrow>
      filter (spec_survivor history_ids) places = []"
    by (simp add: choose_place_def random_choice_def Let_def eligible_loop_filter)
next
  fix p assume "choose_place randbelow places history_ids = Inr (Some p)"
  then have "p \<in> set (filter (spec_survivor history_ids) places)"
    using choose_place_member [of randbelow places history_ids p]
    by (simp add: eligible_loop_filter)
  then show "p \<in> set places" and "spec_survivor history_ids p"
    by simp_all
qed

lemma example_survivors:
  "eligible_loop example_places example_history [] = [taco_stand, sushi_bar]"
  by code_simp

theorem choose_place_eligible_exact_witness:
  "filter (spec_survivor example_history) example_places = [taco_stand, sushi_bar] \<and>
   choose_place (\<lambda>n. 0) example_places example_history = Inr (Some taco_stand) \<and>
   spec_survivor example_history taco_stand"
proof -
  have pick: "choose_place (\<lambda>n. 0) example_places example_history = Inr (Some taco_stand)"
    by code_simp
  show ?thesis
    using choose_place_eligible_exact [of example_places example_history "\<lambda>n. 0"]
      example_survivors pick
    by simp
qed

lemma survivor_not_excluded:
  assumes "p \<in> set (eligible_loop places h [])"
  shows "p \<in> set places \<and> truthy (pid p) \<and> \<not> py_in (pid p) h"
  using assms
  by (auto simp: eligible_loop_filter spec_survivor_def has_identifier_def
      identifier_excluded_def split: option.splits)

lemma survivor_has_counts:
  assumes "p \<in> set (eligible_loop places h [])"
  shows "rating p \<noteq> None \<and> userRatingCount p \<noteq> None"
  using assms
  by (auto simp: eligible_loop_filter spec_survivor_def rating_at_least_def
      review_count_at_least_def split: option.splits)

text \<open>
  C9. A place without a rating is compared as if its rating were 0, and a place without a
  review count as if the count were 0; both values are below the thresholds, so such a
  place is not among the survivors and \<^verbatim>\<open>choose_place\<close> never returns it, whatever
  the other places, the exclusion set and the random draw are.
\<close>

theorem absent_rating_or_count_never_selected:
  assumes "rating p = None \<or> userRatingCount p = None"
  shows "(rating p = None \<longrightarrow>
            get_default (PyInt 0) (rating p) = PyInt 0 \<and> num_val (PyInt 0) < MIN_RATING) \<and>
         (userRatingCount p = None \<longrightarrow>
            get_default 0 (userRatingCount p) = 0 \<and> (0::int) < MIN_REVIEWS) \<and>
         p \<notin> set (eligible_loop places h []) \<and>
         choose_place rb places h \<noteq> Inr (Some p)"
  using assms survivor_has_counts [of p places h] choose_place_member [of rb places h p]
  by (auto simp: MIN_RATING_def MIN_REVIEWS_def)

theorem absent_rating_or_count_never_selected_witness:
  "rating unrated = None \<and> userRatingCount uncounted = None \<and>
   unrated \<in> set example_places \<and> uncounted \<in> set example_places \<and>
   unrated \<notin> set (eligible_loop example_places example_history []) \<and>
   uncounted \<notin> set (eligible_loop example_places example_history []) \<and>
   choose_place (\<lambda>n. 0) example_places example_history \<noteq> Inr (Some unrated)"
proof -
  have a: "rating unrated = None" by (simp add: unrated_def)
  have b: "userRatingCount uncounted = None" by (simp add: uncounted_def)
  show ?thesis
    using absent_rating_or_count_never_selected [of unrated example_places example_history "\<lambda>n. 0"]
      absent_rating_or_count_never_selected [of uncounted example_places example_history "\<lambda>n. 0"]
      a b
    by (simp add: example_places_def)
qed

section \<open>Properties of the pick\<close>

text \<open>
  The generator is uniform when each number below \<open>n\<close> is as likely as any other to be
  drawn. The pick returns the survivor at the drawn position, so the number of draws that
  select a place is the number of times the place occurs among the survivors.
\<close>

lemma card_positions:
  "card {k. k < length xs \<and> xs ! k = p} = count_list xs p"
proof (induction xs rule: rev_induct)
  case Nil
  show ?case by simp
next
  case (snoc x xs)
  have split: "{k. k < length (xs @ [x]) \<and> (xs @ [x]) ! k = p} =
      {k. k < length xs \<and> xs ! k = p} \<union> (if x = p then {length xs} else {})"
    by (auto simp: nth_append less_Suc_eq)
  show ?case
    unfolding split using snoc.IH by simp
qed

lemma draws_selecting:
  "card {k. k < length (eligible_loop places h []) \<and>
            choose_place (\<lambda>n. k) places h = Inr (Some p)} =
   count_list (eligible_loop places h []) p"
proof -
  have "{k. k < length (eligible_loop places h []) \<and>
            choose_place (\<lambda>n. k) places h = Inr (Some p)} =
        {k. k < length (eligible_loop places h []) \<and> eligible_loop places h [] ! k = p}"
    by (auto simp: choose_place_def random_choice_def Let_def)
  then show ?thesis by (simp add: card_positions)
qed

text \<open>
  C6. When there is a survivor, the pick returns the survivor at the position the
  generator draws, so it returns a member of the survivor list and never \<^verbatim>\<open>None\<close>;
  every position is selected by exactly one draw, so a uniform draw makes the pick uniform
  over the survivors; and the number of draws that select a given place is the same for
  every reordering of the input, so no order of the survivors is relied upon.
\<close>

theorem pick_is_uniform_over_survivors:
  assumes "eligible_loop places h [] \<noteq> []"
  shows "(rb (length (eligible_loop places h [])) < length (eligible_loop places h []) \<longrightarrow>
            choose_place rb places h =
              Inr (Some (eligible_loop places h [] ! rb (length (eligible_loop places h []))))) \<and>
         (\<forall>p. choose_place rb places h = Inr (Some p) \<longrightarrow> p \<in> set (eligible_loop places h [])) \<and>
         choose_place rb places h \<noteq> Inr None \<and>
         (\<forall>p. card {k. k < length (eligible_loop places h []) \<and>
                       choose_place (\<lambda>n. k) places h = Inr (Some p)} =
               count_list (eligible_loop places h []) p) \<and>
         (\<forall>places' p. mset places' = mset places \<longrightarrow>
            length (eligible_loop places' h []) = length (eligible_loop places h []) \<and>
            card {k. k < length (eligible_loop places' h []) \<and>
                     choose_place (\<lambda>n. k) places' h = Inr (Some p)} =
            card {k. k < length (eligible_loop places h []) \<and>
                     choose_place (\<lambda>n. k) places h = Inr (Some p)})"
proof (intro conjI allI impI)
  assume "rb (length (eligible_loop places h [])) < length (eligible_loop places h [])"
  with assms show "choose_place rb places h =
      Inr (Some (eligible_loop places h [] ! rb (length (eligible_loop places h []))))"
    by (rule choose_place_drawn)
next
  fix p assume "choose_place rb places h = Inr (Some p)"
  then show "p \<in> set (eligible_loop places h [])" by (rule choose_place_member)
next
  show "choose_place rb places h \<noteq> Inr None"
    using assms by (simp add: choose_place_def split: sum.splits)
next
  fix p
  show "card {k. k < length (eligible_loop places h []) \<and>
                 choose_place (\<lambda>n. k) places h = Inr (Some p)} =
        count_list (eligible_loop places h []) p"
    by (rule draws_selecting)
next
  fix places' p assume perm: "mset places' = mset places"
  have m: "mset (eligible_loop places' h []) = mset (eligible_loop places h [])"
    using perm by (simp add: eligible_loop_filter)
  show "length (eligible_loop places' h []) = length (eligible_loop places h [])"
    using m by (rule mset_eq_length)
  have "count_list (eligible_loop places' h []) p = count_list (eligible_loop places h []) p"
    using m by (metis count_mset)
  then show "card {k. k < length (eligible_loop places' h []) \<and>
                     choose_place (\<lambda>n. k) places' h = Inr (Some p)} =
            card {k. k < length (eligible_loop places h []) \<and>
                     choose_place (\<lambda>n. k) places h = Inr (Some p)}"
    by (simp add: draws_selecting)
qed

theorem pick_is_uniform_over_survivors_witness:
  "eligible_loop example_places example_history [] = [taco_stand, sushi_bar] \<and>
   choose_place (\<lambda>n. 1) example_places example_history = Inr (Some sushi_bar) \<and>
   sushi_bar \<in> set (eligible_loop example_places example_history []) \<and>
   card {k. k < length (eligible_loop example_places example_history []) \<and>
            choose_place (\<lambda>n. k) example_places example_history = Inr (Some sushi_bar)} = 1"
proof -
  have ne: "eligible_loop example_places example_history [] \<noteq> []"
    by (simp add: example_survivors)
  have distinct: "taco_stand \<noteq> sushi_bar"
    by (simp add: taco_stand_def sushi_bar_def)
  show ?thesis
    using pick_is_uniform_over_survivors [OF ne, of "\<lambda>n. 1"] distinct
    by (simp add: example_survivors)
qed

section \<open>The next Monday is a Monday after today\<close>

text \<open>
  C3. For every date \<open>today\<close>, \<^verbatim>\<open>get_next_monday_date\<close> returns a Monday strictly after
  \<open>today\<close>: seven days later when \<open>today\<close> is a Monday, and between one and six days
  later otherwise; no Monday lies strictly between \<open>today\<close> and the result.
\<close>

theorem next_monday:
  "weekday (get_next_monday_date today) = 0 \<and>
   today < get_next_monday_date today \<and>
   (weekday today = 0 \<longrightarrow> get_next_monday_date today = today + 7) \<and>
   (weekday today \<noteq> 0 \<longrightarrow>
      1 \<le> get_next_monday_date today - today \<and> get_next_monday_date today - today \<le> 6) \<and>
   (\<forall>d. today < d \<and> d < get_next_monday_date today \<longrightarrow> weekday d \<noteq> 0)"
  unfolding get_next_monday_date_def weekday_def Let_def
  by presburger

theorem next_monday_witness:
  "weekday 738893 = 0 \<and> get_next_monday_date 738893 = 738893 + 7 \<and>
   weekday 738887 = 1 \<and> get_next_monday_date 738887 = 738893 \<and>
   weekday 738890 = 4"
  using next_monday [of 738893] next_monday [of 738887]
  by (simp add: weekday_def get_next_monday_date_def)

section \<open>The history row and the calendar event\<close>

text \<open>
  C4. For every place, cuisine and event date, \<^verbatim>\<open>format_history_row\<close> returns ten
  fields, in this order: the timestamp, the event date, the cuisine, the name of the place,
  its identifier, its rating, its review count, its price tier, its address and its map
  link; a field the place lacks is the empty string.
\<close>

theorem history_row_fields:
  "length (format_history_row lib now p cuisine event_date) = 10 \<and>
   format_history_row lib now p cuisine event_date ! 0 = datetime_isoformat lib now \<and>
   format_history_row lib now p cuisine event_date ! 1 = date_isoformat lib event_date \<and>
   format_history_row lib now p cuisine event_date ! 2 = cuisine \<and>
   format_history_row lib now p cuisine event_date ! 3 = get_place_name p \<and>
   format_history_row lib now p cuisine event_date ! 4 = get_default [] (pid p) \<and>
   format_history_row lib now p cuisine event_date ! 5 =
     get_default [] (map_option (str_number lib) (rating p)) \<and>
   format_history_row lib now p cuisine event_date ! 6 =
     get_default [] (map_option str_int (userRatingCount p)) \<and>
   format_history_row lib now p cuisine event_date ! 7 = get_default [] (priceLevel p) \<and>
   format_history_row lib now p cuisine event_date ! 8 = get_default [] (formattedAddress p) \<and>
   format_history_row lib now p cuisine event_date ! 9 = get_default [] (googleMapsUri p)"
  by (simp add: format_history_row_def)

theorem history_row_fields_witness:
  "length (format_history_row example_library example_now sushi_bar ''Japanese'' 738893) = 10 \<and>
   format_history_row example_library example_now sushi_bar ''Japanese'' 738893 ! 4 = ''ChIJ-sushi'' \<and>
   format_history_row example_library example_now sushi_bar ''Japanese'' 738893 ! 9 = []"
  using history_row_fields [of example_library example_now sushi_bar "''Japanese''" 738893]
  by (simp add: sushi_bar_def)

text \<open>
  C7. For every place and event date, the event that \<^verbatim>\<open>create_calendar_event\<close> inserts
  starts at 18:00 and ends at 20:00 on that date in the zone America/Los_Angeles, and its
  summary, location and description are built from the place: its name, its address, its
  rating, its review count and its map link.
\<close>

theorem calendar_event_window:
  "ev_start (calendar_event lib p event_date) =
     \<lparr>dateTime = datetime_isoformat lib
        \<lparr>dt_date = event_date, dt_hour = 18, dt_minute = 0, dt_second = 0,
         dt_microsecond = 0, dt_tzinfo = ''America/Los_Angeles''\<rparr>,
      timeZone = ''America/Los_Angeles''\<rparr> \<and>
   ev_end (calendar_event lib p event_date) =
     \<lparr>dateTime = datetime_isoformat lib
        \<lparr>dt_date = event_date, dt_hour = 20, dt_minute = 0, dt_second = 0,
         dt_microsecond = 0, dt_tzinfo = ''America/Los_Angeles''\<rparr>,
      timeZone = ''America/Los_Angeles''\<rparr> \<and>
   summary (calendar_event lib p event_date) = ''Dinner @ '' @ get_place_name p \<and>
   location (calendar_event lib p event_date) = get_default [] (formattedAddress p) \<and>
   description (calendar_event lib p event_date) =
     get_place_name p @ '' | Rating: '' @
     get_default ''N/A'' (map_option (str_number lib) (rating p)) @ '' | Reviews: '' @
     get_default ''N/A'' (map_option str_int (userRatingCount p)) @ '' | Link: '' @
     get_default [] (googleMapsUri p) \<and>
   create_calendar_event lib ins p event_date = ins (calendar_event lib p event_date)"
  by (simp add: calendar_event_def combine_def TIMEZONE_def create_calendar_event_def)

theorem calendar_event_window_witness:
  "ev_start (calendar_event example_library taco_stand 738893) =
     \<lparr>dateTime = ''2024-01-08T18:00:00-08:00'', timeZone = ''America/Los_Angeles''\<rparr> \<and>
   ev_end (calendar_event example_library taco_stand 738893) =
     \<lparr>dateTime = ''2024-01-08T20:00:00-08:00'', timeZone = ''America/Los_Angeles''\<rparr> \<and>
   summary (calendar_event example_library taco_stand 738893) = ''Dinner @ Taco Stand''"
  using calendar_event_window [of example_library taco_stand 738893]
  by (simp add: example_library_def taco_stand_def get_place_name_def)

section \<open>What the history read returns\<close>

text \<open>
  The read returns the empty set for a log without rows. When the frame can be built, it
  returns the empty set if the header lacks the column \<^verbatim>\<open>Google Place ID\<close>, and the
  values that the data rows hold in that column if the header names it once. When the
  frame cannot be built, the read raises a \<^verbatim>\<open>ValueError\<close>.
\<close>

lemma row_length_le_width:
  "row \<in> set body \<Longrightarrow> length row \<le> foldr (\<lambda>row w. max (length row) w) body 0"
  by (induction body) auto

lemma DataFrame_fits:
  "frame_fits header body \<Longrightarrow>
   DataFrame body header = Inr \<lparr>columns = header, cells = map (pad (length header)) body\<rparr>"
  by (auto simp: frame_fits_def DataFrame_def Let_def)

lemma DataFrame_misfit:
  "\<not> frame_fits header body \<Longrightarrow> \<exists>m. DataFrame body header = Inl (ValueError m)"
  by (auto simp: frame_fits_def DataFrame_def Let_def)

lemma pad_nth:
  "length row \<le> w \<Longrightarrow> i < w \<Longrightarrow>
   pad w row ! i = (if i < length row then Some (row ! i) else None)"
  by (simp add: pad_def nth_append)

lemma positions_single:
  assumes "positions key cols = [i]"
  shows "i < length cols \<and> cols ! i = key \<and> key \<in> set cols"
proof -
  have "i \<in> set (positions key cols)" using assms by simp
  then show ?thesis by (auto simp: positions_def)
qed

lemma series_list:
  assumes "\<forall>row \<in> set body. length row \<le> w" and "i < w"
  shows "map (get_default ''None'')
           (map (\<lambda>x. Some (get_default ''None'' x))
              (filter (\<lambda>x. x \<noteq> None) (map (\<lambda>r. r ! i) (map (pad w) body)))) =
         map (\<lambda>row. row ! i) (filter (\<lambda>row. i < length row) body)"
  using assms by (induction body) (simp_all add: pad_nth)

lemma series_values:
  assumes "\<forall>row \<in> set body. length row \<le> w" and "i < w"
  shows "py_set (astype_str (dropna (Series (map (\<lambda>r. r ! i) (map (pad w) body))))) =
         column_values i body"
  using series_list [OF assms] by (simp add: column_values_def)

lemma fetch_history_place_ids_no_rows:
  "fetch_history_place_ids (Inr None) = Inr {} \<and> fetch_history_place_ids (Inr (Some [])) = Inr {}"
  by (simp add: fetch_history_place_ids_def)

lemma fetch_history_place_ids_no_column:
  assumes "frame_fits header body" and "''Google Place ID'' \<notin> set header"
  shows "fetch_history_place_ids (Inr (Some (header # body))) = Inr {}"
  using assms by (simp add: fetch_history_place_ids_def DataFrame_fits)

lemma fetch_history_place_ids_column:
  assumes fits: "frame_fits header body"
    and pos: "positions ''Google Place ID'' header = [i]"
  shows "fetch_history_place_ids (Inr (Some (header # body))) = Inr (column_values i body)"
proof -
  have i: "i < length header" and key: "''Google Place ID'' \<in> set header"
    using positions_single [OF pos] by simp_all
  have len: "\<forall>row \<in> set body. length row \<le> length header"
    using fits row_length_le_width [of _ body] by (auto simp: frame_fits_def)
  have "getitem \<lparr>columns = header, cells = map (pad (length header)) body\<rparr> ''Google Place ID'' =
      Inr (Series (map (\<lambda>r. r ! i) (map (pad (length header)) body)))"
    by (simp add: getitem_def pos)
  then show ?thesis
    using key series_values [OF len i]
    by (simp add: fetch_history_place_ids_def DataFrame_fits [OF fits])
qed

lemma fetch_history_place_ids_misfit:
  assumes "\<not> frame_fits header body"
  shows "\<exists>m. fetch_history_place_ids (Inr (Some (header # body))) = Inl (ValueError m)"
  using DataFrame_misfit [OF assms] by (auto simp: fetch_history_place_ids_def)

text \<open>
  C10, which the program does not meet. The claim is that the read returns the empty set
  for a log without rows or without the column \<^verbatim>\<open>Google Place ID\<close>, and otherwise
  exactly the values of that column in the data rows. The row that
  \<^verbatim>\<open>format_history_row\<close> writes for a place without a map link ends with an empty
  field, and the log returns it without that field. On a log that holds the header and
  this row, the read raises a \<^verbatim>\<open>ValueError\<close> instead of returning the identifier of
  the place, and the run ends with the generic error message.
\<close>

theorem history_read_fails_on_short_rows:
  "short_row = butlast (format_history_row example_library example_now sushi_bar ''Japanese'' 738893) \<and>
   last (format_history_row example_library example_now sushi_bar ''Japanese'' 738893) = [] \<and>
   log_header ! 4 = ''Google Place ID'' \<and> short_row ! 4 = ''ChIJ-sushi'' \<and>
   fetch_history_place_ids (Inr (Some [log_header, short_row])) =
     Inl (ValueError ''10 columns passed, passed data had 9 columns'') \<and>
   roll_the_dice example_library short_log_world =
     \<lparr>requests = [SheetsGet],
      shown = [Error ''Something went wrong: 10 columns passed, passed data had 9 columns'']\<rparr>"
  by code_simp

section \<open>Properties of a run\<close>

lemma try_body_no_survivor:
  assumes "random_choice (rand_cuisine w) CUISINES = Inr c"
    and "google_clients w = Inr u"
    and "fetch_history_place_ids (sheets_get w) = Inr h"
    and "search_places (places_post w) c = Inr places"
    and "eligible_loop places h [] = []"
  shows "try_body lib w =
           ([SheetsGet, PlacesSearchText (search_request c)],
            [Warning ''No eligible restaurants found for that cuisine. Try rolling again.''],
            None)"
  using assms by (simp add: try_body_def choose_place_empty)

lemma try_body_raised_silent:
  "try_body lib w = (sent, out, Some e) \<Longrightarrow> out = []"
  by (auto simp: try_body_def Let_def split: sum.splits option.splits)

lemma show_choice_no_error: "\<not> list_ex is_error (show_choice lib c p)"
  by (simp add: show_choice_def Let_def)

lemma try_body_quiet:
  "try_body lib w = (sent, out, None) \<Longrightarrow> \<not> list_ex is_error out"
  by (auto simp: try_body_def Let_def show_choice_no_error split: sum.splits option.splits)

lemma try_body_requests_distinct:
  "distinct (map request_kind (fst (try_body lib w)))"
  by (auto simp: try_body_def Let_def split: sum.splits option.splits)

lemma roll_requests: "requests (roll_the_dice lib w) = fst (try_body lib w)"
  by (simp add: roll_the_dice_def split: prod.splits option.splits)

lemma raised_is_first_failure:
  "raised lib w =
     (case random_choice (rand_cuisine w) CUISINES of
        Inl e \<Rightarrow> Some e
      | Inr c \<Rightarrow>
     (case google_clients w of
        Inl e \<Rightarrow> Some e
      | Inr u \<Rightarrow>
     (case fetch_history_place_ids (sheets_get w) of
        Inl e \<Rightarrow> Some e
      | Inr h \<Rightarrow>
     (case search_places (places_post w) c of
        Inl e \<Rightarrow> Some e
      | Inr places \<Rightarrow>
     (case choose_place (rand_place w) places h of
        Inl e \<Rightarrow> Some e
      | Inr None \<Rightarrow> None
      | Inr (Some p) \<Rightarrow>
     (case sheets_append w
             (format_history_row lib (clock_now w) p c (get_next_monday_date (clock_today w))) of
        Inl e \<Rightarrow> Some e
      | Inr u \<Rightarrow>
     (case events_insert w (calendar_event lib p (get_next_monday_date (clock_today w))) of
        Inl e \<Rightarrow> Some e
      | Inr u \<Rightarrow> None)))))))"
  by (simp add: raised_def try_body_def Let_def create_calendar_event_def
      split: sum.splits option.splits)

lemma try_body_search_http:
  assumes "random_choice (rand_cuisine w) CUISINES = Inr c"
    and "google_clients w = Inr u"
    and "fetch_history_place_ids (sheets_get w) = Inr h"
    and "places_post w (search_request c) = Inl e"
  shows "try_body lib w = ([SheetsGet, PlacesSearchText (search_request c)], [], Some e)"
  using assms by (simp add: try_body_def search_places_def)

lemma append_row_origin:
  assumes "SheetsAppend row \<in> set (fst (try_body lib w))"
    and "fetch_history_place_ids (sheets_get w) = Inr h"
  shows "\<exists>c places p. choose_place (rand_place w) places h = Inr (Some p) \<and>
           row = format_history_row lib (clock_now w) p c (get_next_monday_date (clock_today w))"
  using assms
  by (auto simp: try_body_def Let_def split: sum.splits option.splits)

text \<open>
  C2. When no place survives the filter, \<^verbatim>\<open>choose_place\<close> returns \<^verbatim>\<open>None\<close> and raises
  nothing; and a run in which the steps before the pick succeed and no place survives
  shows the warning and nothing else, after the read of the log and the search: no error
  is shown, nothing is appended to the log and no event is inserted.
\<close>

theorem no_survivor_is_a_warning:
  assumes "eligible_loop places h [] = []"
  shows "choose_place rb places h = Inr None \<and>
         (random_choice (rand_cuisine w) CUISINES = Inr c \<and> google_clients w = Inr u \<and>
          fetch_history_place_ids (sheets_get w) = Inr h \<and>
          search_places (places_post w) c = Inr places \<longrightarrow>
          roll_the_dice lib w =
            \<lparr>requests = [SheetsGet, PlacesSearchText (search_request c)],
             shown = [Warning ''No eligible restaurants found for that cuisine. Try rolling again.'']\<rparr>)"
  using assms
  by (auto simp: choose_place_empty roll_the_dice_def try_body_no_survivor [where lib = lib])

theorem no_survivor_is_a_warning_witness:
  "choose_place (\<lambda>n. 0) [low_rated, few_reviews, visited] example_history = Inr None \<and>
   roll_the_dice example_library barren_world =
     \<lparr>requests = [SheetsGet, PlacesSearchText (search_request ''Japanese'')],
      shown = [Warning ''No eligible restaurants found for that cuisine. Try rolling again.'']\<rparr>"
proof -
  have none: "eligible_loop [low_rated, few_reviews, visited] example_history [] = []"
    by code_simp
  have c: "random_choice (rand_cuisine barren_world) CUISINES = Inr ''Japanese''"
    by code_simp
  have g: "google_clients barren_world = Inr ()"
    by (simp add: barren_world_def example_world_def)
  have f: "fetch_history_place_ids (sheets_get barren_world) = Inr example_history"
    by code_simp
  have s: "search_places (places_post barren_world) ''Japanese'' =
      Inr [low_rated, few_reviews, visited]"
    by (simp add: barren_world_def example_world_def search_places_def)
  show ?thesis
    using no_survivor_is_a_warning [OF none, of "\<lambda>n. 0" barren_world "''Japanese''" "()"
        example_library] c g f s
    by simp
qed

lemma example_history_read:
  "fetch_history_place_ids (sheets_get example_world) = Inr example_history"
  by code_simp

text \<open>
  C5. A place whose identifier is in the exclusion set is never returned by
  \<^verbatim>\<open>choose_place\<close>: the place returned is one of the input, it has an identifier, and
  the identifier is not in the set. In a run, the exclusion set is the one read from the
  log, and the identifier in a row that the run appends to the log is not in it.
\<close>

theorem visited_place_never_selected:
  "(choose_place rb places h = Inr (Some p) \<longrightarrow>
      p \<in> set places \<and> pid p \<noteq> None \<and> \<not> py_in (pid p) h) \<and>
   (fetch_history_place_ids (sheets_get w) = Inr h' \<and>
    SheetsAppend row \<in> set (requests (roll_the_dice lib w)) \<longrightarrow> row ! 4 \<notin> h')"
proof (intro conjI impI)
  assume "choose_place rb places h = Inr (Some p)"
  then have k: "p \<in> set places \<and> truthy (pid p) \<and> \<not> py_in (pid p) h"
    using choose_place_member survivor_not_excluded by blast
  from k show "p \<in> set places" by simp
  from k show "pid p \<noteq> None" by (cases "pid p") simp_all
  from k show "\<not> py_in (pid p) h" by simp
next
  assume a: "fetch_history_place_ids (sheets_get w) = Inr h' \<and>
    SheetsAppend row \<in> set (requests (roll_the_dice lib w))"
  then obtain c places q where q: "choose_place (rand_place w) places h' = Inr (Some q)"
    and row: "row = format_history_row lib (clock_now w) q c (get_next_monday_date (clock_today w))"
    using append_row_origin [of row lib w h'] by (auto simp: roll_requests)
  have "truthy (pid q) \<and> \<not> py_in (pid q) h'"
    using q choose_place_member survivor_not_excluded by blast
  then show "row ! 4 \<notin> h'"
    by (cases "pid q") (simp_all add: row format_history_row_def)
qed

theorem visited_place_never_selected_witness:
  "choose_place (\<lambda>n. 0) example_places example_history = Inr (Some taco_stand) \<and>
   taco_stand \<in> set example_places \<and> \<not> py_in (pid taco_stand) example_history \<and>
   SheetsAppend (format_history_row example_library example_now taco_stand ''Japanese'' 738893)
     \<in> set (requests (roll_the_dice example_library example_world)) \<and>
   format_history_row example_library example_now taco_stand ''Japanese'' 738893 ! 4
     \<notin> example_history"
proof -
  have pick: "choose_place (\<lambda>n. 0) example_places example_history = Inr (Some taco_stand)"
    by code_simp
  have sent: "SheetsAppend (format_history_row example_library example_now taco_stand ''Japanese'' 738893)
     \<in> set (requests (roll_the_dice example_library example_world))"
    by code_simp
  show ?thesis
    using visited_place_never_selected [of "\<lambda>n. 0" example_places example_history taco_stand
        example_world example_history
        "format_history_row example_library example_now taco_stand ''Japanese'' 738893"
        example_library]
      pick sent example_history_read
    by simp
qed

text \<open>
  C8. A run that fails shows one error message and nothing else, in one of two forms: a
  \<^verbatim>\<open>requests.HTTPError\<close> is shown as \<^verbatim>\<open>Places API error:\<close> with its message, and
  every other exception as \<^verbatim>\<open>Something went wrong:\<close> with its message; a run that
  does not fail shows no error. In particular an error status of the places search is
  shown in the first form. Nothing is retried: a run sends each of its four kinds of
  request at most once.
\<close>

theorem failure_outcomes:
  "(raised lib w = Some exc \<longrightarrow>
      shown (roll_the_dice lib w) = [handler exc] \<and>
      (case exc of
         HTTPError m \<Rightarrow> handler exc = Error (''Places API error: '' @ m)
       | _ \<Rightarrow> handler exc = Error (''Something went wrong: '' @ exn_str exc))) \<and>
   (raised lib w = None \<longrightarrow> \<not> list_ex is_error (shown (roll_the_dice lib w))) \<and>
   (random_choice (rand_cuisine w) CUISINES = Inr c \<and> google_clients w = Inr u \<and>
    fetch_history_place_ids (sheets_get w) = Inr h \<and>
    places_post w (search_request c) = Inl (HTTPError m') \<longrightarrow>
      roll_the_dice lib w =
        \<lparr>requests = [SheetsGet, PlacesSearchText (search_request c)],
         shown = [Error (''Places API error: '' @ m')]\<rparr>) \<and>
   distinct (map request_kind (requests (roll_the_dice lib w)))"
proof (intro conjI impI)
  assume r: "raised lib w = Some exc"
  obtain sent out where t: "try_body lib w = (sent, out, Some exc)"
    using r by (cases "try_body lib w") (auto simp: raised_def)
  then have "out = []" by (rule try_body_raised_silent)
  with t show "shown (roll_the_dice lib w) = [handler exc]"
    by (simp add: roll_the_dice_def)
  show "case exc of
         HTTPError m \<Rightarrow> handler exc = Error (''Places API error: '' @ m)
       | _ \<Rightarrow> handler exc = Error (''Something went wrong: '' @ exn_str exc)"
    by (cases exc) simp_all
next
  assume r: "raised lib w = None"
  obtain sent out where t: "try_body lib w = (sent, out, None)"
    using r by (cases "try_body lib w") (auto simp: raised_def)
  then have "\<not> list_ex is_error out" by (rule try_body_quiet)
  with t show "\<not> list_ex is_error (shown (roll_the_dice lib w))"
    by (simp add: roll_the_dice_def)
next
  assume "random_choice (rand_cuisine w) CUISINES = Inr c \<and> google_clients w = Inr u \<and>
    fetch_history_place_ids (sheets_get w) = Inr h \<and>
    places_post w (search_request c) = Inl (HTTPError m')"
  then have "try_body lib w =
      ([SheetsGet, PlacesSearchText (search_request c)], [], Some (HTTPError m'))"
    using try_body_search_http by blast
  then show "roll_the_dice lib w =
        \<lparr>requests = [SheetsGet, PlacesSearchText (search_request c)],
         shown = [Error (''Places API error: '' @ m')]\<rparr>"
    by (simp add: roll_the_dice_def)
next
  show "distinct (map request_kind (requests (roll_the_dice lib w)))"
    by (simp add: roll_requests try_body_requests_distinct)
qed

theorem failure_outcomes_witness:
  "roll_the_dice example_library forbidden_world =
     \<lparr>requests = [SheetsGet, PlacesSearchText (search_request ''Japanese'')],
      shown = [Error (''Places API error: '' @ forbidden_message)]\<rparr> \<and>
   raised example_library short_log_world =
     Some (ValueError ''10 columns passed, passed data had 9 columns'') \<and>
   shown (roll_the_dice example_library short_log_world) =
     [Error ''Something went wrong: 10 columns passed, passed data had 9 columns''] \<and>
   raised example_library example_world = None \<and>
   \<not> list_ex is_error (shown (roll_the_dice example_library example_world))"
proof -
  have c: "random_choice (rand_cuisine forbidden_world) CUISINES = Inr ''Japanese''"
    by code_simp
  have g: "google_clients forbidden_world = Inr ()"
    by (simp add: forbidden_world_def example_world_def)
  have f: "fetch_history_place_ids (sheets_get forbidden_world) = Inr example_history"
    by code_simp
  have s: "places_post forbidden_world (search_request ''Japanese'') =
      Inl (HTTPError forbidden_message)"
    by (simp add: forbidden_world_def example_world_def)
  have r: "raised example_library short_log_world =
      Some (ValueError ''10 columns passed, passed data had 9 columns'')"
    by code_simp
  have q: "raised example_library example_world = None"
    by code_simp
  show ?thesis
    using failure_outcomes [of example_library forbidden_world _ "''Japanese''" "()"
        example_history forbidden_message]
      failure_outcomes [of example_library short_log_world
        "ValueError ''10 columns passed, passed data had 9 columns''"]
      failure_outcomes [of example_library example_world]
      c g f s r q
    by simp
qed

end
